theory Spec2Isabelle
  imports Complex_Main "HOL-Library.Code_Target_Nat"
begin

section \<open>Values held in a table\<close>

text \<open>
  The dashboard module (\<^verbatim>\<open>src/dashboard.py\<close>) loads a pandas table of companies,
  renames its columns, derives three columns from it, coerces the revenue column to floats
  and resolves country names to ISO codes.

  A Python \<^verbatim>\<open>float\<close> is modelled by the real number it denotes, or one of the three
  special values. Where a string is parsed and where columns are divided or subtracted,
  rounding to binary64, overflow to infinity and the sign of zero are not modelled; the
  conversion of a Python integer by \<^verbatim>\<open>float\<close> is modelled with its rounding and its
  overflow. A Python \<^verbatim>\<open>str\<close> is a list of code points; the model covers the code
  points below 256, which hold every label of the source.
\<close>

datatype pyfloat = Fin real | PosInf | NegInf | NaN

datatype cell =
    PyInt int
  | PyFloat pyfloat
  | PyStr string
  | PyNone
  | Timestamp int nat nat
  | NaT

datatype error =
    ValueError
  | TypeError
  | ZeroDivisionError
  | LookupError
  | AttributeError
  | KeyError
  | OverflowError
  | DuplicateLabel

type_synonym column = "cell list"

type_synonym dataframe = "(string \<times> column) list"

section \<open>The builtin \<^verbatim>\<open>float\<close> on strings\<close>

text \<open>
  \<^verbatim>\<open>float(s)\<close> first checks and drops underscores (allowed only between two digits),
  then strips white space at both ends, then reads an optional sign followed by
  \<^verbatim>\<open>inf\<close>, \<^verbatim>\<open>infinity\<close>, \<^verbatim>\<open>nan\<close> (in any case) or a decimal number with an
  optional fraction and exponent. Anything else raises \<^verbatim>\<open>ValueError\<close>.

  Two notions of white space are in play. The class \<^verbatim>\<open>\s\<close> of a string pattern is
  Unicode white space (\<open>is_space\<close>). \<^verbatim>\<open>float\<close> strips the six ASCII white-space
  characters, and the two other white-space characters below 256, which it first turns
  into blanks (\<open>is_float_space\<close>); it does not strip the separators \<open>0x1C\<close> to
  \<open>0x1F\<close>.
\<close>

definition is_digit :: "char \<Rightarrow> bool" where
  "is_digit c = (c \<in> set ''0123456789'')"

definition is_space :: "char \<Rightarrow> bool" where
  "is_space c =
     (let n = (of_char c :: nat)
      in (9 \<le> n \<and> n \<le> 13) \<or> (28 \<le> n \<and> n \<le> 32) \<or> n = 133 \<or> n = 160)"

definition to_lower :: "char \<Rightarrow> char" where
  "to_lower c =
     (case map_of (zip ''ABCDEFGHIJKLMNOPQRSTUVWXYZ'' ''abcdefghijklmnopqrstuvwxyz'') c of
        Some l \<Rightarrow> l
      | None \<Rightarrow> c)"

definition digit_val :: "char \<Rightarrow> nat" where
  "digit_val c = of_char c - 48"

definition dec_value :: "string \<Rightarrow> nat" where
  "dec_value ds = foldl (\<lambda>a c. 10 * a + digit_val c) 0 ds"

fun remove_underscores :: "char \<Rightarrow> string \<Rightarrow> string option" where
  "remove_underscores prev [] = (if prev = CHR ''_'' then None else Some [])"
| "remove_underscores prev (c # cs) =
     (if c = CHR ''_'' then
        (if is_digit prev then remove_underscores c cs else None)
      else if prev = CHR ''_'' \<and> \<not> is_digit c then None
      else map_option ((#) c) (remove_underscores c cs))"

definition is_float_space :: "char \<Rightarrow> bool" where
  "is_float_space c =
     (let n = (of_char c :: nat)
      in (9 \<le> n \<and> n \<le> 13) \<or> n = 32 \<or> n = 133 \<or> n = 160)"

definition strip :: "string \<Rightarrow> string" where
  "strip s = rev (dropWhile is_float_space (rev (dropWhile is_float_space s)))"

definition parse_sign :: "string \<Rightarrow> bool \<times> string" where
  "parse_sign s =
     (case s of
        [] \<Rightarrow> (False, s)
      | c # r \<Rightarrow>
          if c = CHR ''-'' then (True, r)
          else if c = CHR ''+'' then (False, r)
          else (False, s))"

definition parse_exponent :: "string \<Rightarrow> int option" where
  "parse_exponent s =
     (case s of
        [] \<Rightarrow> Some 0
      | c # t \<Rightarrow>
          if c = CHR ''e'' \<or> c = CHR ''E'' then
            (let (neg, ds) = parse_sign t
             in if ds \<noteq> [] \<and> list_all is_digit ds
                then Some (if neg then - int (dec_value ds) else int (dec_value ds))
                else None)
          else None)"

definition scale10 :: "real \<Rightarrow> int \<Rightarrow> real" where
  "scale10 m z = (if 0 \<le> z then m * 10 ^ nat z else m / 10 ^ nat (- z))"

definition string_to_double :: "string \<Rightarrow> pyfloat option" where
  "string_to_double s =
     (let (neg, r) = parse_sign s;
          lr = map to_lower r
      in if lr = ''inf'' \<or> lr = ''infinity'' then Some (if neg then NegInf else PosInf)
         else if lr = ''nan'' then Some NaN
         else
           (let ip = takeWhile is_digit r;
                r1 = dropWhile is_digit r;
                (fp, r2) =
                  (case r1 of
                     [] \<Rightarrow> ([], r1)
                   | c # t \<Rightarrow>
                       if c = CHR ''.'' then (takeWhile is_digit t, dropWhile is_digit t)
                       else ([], r1))
            in if ip = [] \<and> fp = [] then None
               else
                 (case parse_exponent r2 of
                    None \<Rightarrow> None
                  | Some e \<Rightarrow>
                      (let m = real (dec_value (ip @ fp));
                           v = scale10 m (e - int (length fp))
                       in Some (Fin (if neg then - v else v))))))"

definition float_of_str :: "string \<Rightarrow> error + pyfloat" where
  "float_of_str s =
     (case remove_underscores (CHR 0x00) s of
        None \<Rightarrow> Inl ValueError
      | Some t \<Rightarrow>
          (case string_to_double (strip t) of
             None \<Rightarrow> Inl ValueError
           | Some x \<Rightarrow> Inr x))"

section \<open>Revenue coercion\<close>

text \<open>
  \<^verbatim>\<open>re.sub(r'[R$\s.]', '', valor)\<close> deletes every character of the class;
  \<^verbatim>\<open>.replace(',', '.')\<close> then turns each comma into a dot.

  \<^verbatim>\<open>float(valor)\<close> on an integer keeps the 53 leading bits, rounding to the
  nearest with ties to the even neighbour, and raises \<^verbatim>\<open>OverflowError\<close> when the
  rounded value reaches \<open>2 ^ 1024\<close>.
\<close>

fun bit_length :: "nat \<Rightarrow> nat" where
  "bit_length n = (if n = 0 then 0 else Suc (bit_length (n div 2)))"

declare bit_length.simps [simp del]

definition round_to_53 :: "nat \<Rightarrow> nat" where
  "round_to_53 n =
     (if bit_length n \<le> 53 then n
      else
        (let sh = bit_length n - 53;
             q = n div 2 ^ sh;
             r = n mod 2 ^ sh;
             h = 2 ^ (sh - 1)
         in (if h < r \<or> (r = h \<and> odd q) then q + 1 else q) * 2 ^ sh))"

definition float_of_int :: "int \<Rightarrow> error + pyfloat" where
  "float_of_int i =
     (let m = round_to_53 (nat \<bar>i\<bar>)
      in if 2 ^ 1024 \<le> m then Inl OverflowError
         else Inr (Fin (if i < 0 then - real m else real m)))"

definition in_class :: "char \<Rightarrow> bool" where
  "in_class c = (c = CHR ''R'' \<or> c = CHR ''$'' \<or> is_space c \<or> c = CHR ''.'')"

fun re_sub_class :: "string \<Rightarrow> string" where
  "re_sub_class [] = []"
| "re_sub_class (c # cs) = (if in_class c then re_sub_class cs else c # re_sub_class cs)"

fun replace_comma :: "string \<Rightarrow> string" where
  "replace_comma [] = []"
| "replace_comma (c # cs) = (if c = CHR '','' then CHR ''.'' else c) # replace_comma cs"

fun converter_para_float :: "cell \<Rightarrow> error + cell" where
  "converter_para_float (PyInt i) =
     (case float_of_int i of
        Inl e \<Rightarrow> Inl e
      | Inr x \<Rightarrow> Inr (PyFloat x))"
| "converter_para_float (PyFloat x) = Inr (PyFloat x)"
| "converter_para_float (PyStr valor) =
     (let limpo = replace_comma (re_sub_class valor)
      in case float_of_str limpo of
           Inl e \<Rightarrow> Inl e
         | Inr x \<Rightarrow> Inr (PyFloat x))"
| "converter_para_float _ = Inr (PyFloat NaN)"

section \<open>Tables and the store of table objects\<close>

text \<open>
  A \<^verbatim>\<open>DataFrame\<close> is its list of labelled columns, in order; pandas allows a label
  to occur twice. Selecting \<^verbatim>\<open>df[c]\<close> for a label that occurs twice gives a
  two-dimensional selection in pandas, which none of the uses below accepts; the model
  reports it as \<^verbatim>\<open>DuplicateLabel\<close> at the selection. Assigning \<^verbatim>\<open>df[c] = col\<close>
  overwrites every column labelled \<^verbatim>\<open>c\<close>, or appends a new column.
\<close>

definition columns :: "dataframe \<Rightarrow> string list" where
  "columns df = map fst df"

definition get_col :: "dataframe \<Rightarrow> string \<Rightarrow> error + column" where
  "get_col df c =
     (case filter (\<lambda>p. fst p = c) df of
        [] \<Rightarrow> Inl KeyError
      | [p] \<Rightarrow> Inr (snd p)
      | _ \<Rightarrow> Inl DuplicateLabel)"

definition set_col :: "string \<Rightarrow> column \<Rightarrow> dataframe \<Rightarrow> dataframe" where
  "set_col c col df =
     (if c \<in> set (columns df)
      then map (\<lambda>p. if fst p = c then (c, col) else p) df
      else df @ [(c, col)])"

text \<open>
  Table objects live in a store and are named by references, so that the table a caller
  passed in and the table the function works on can be the same object or two objects.
\<close>

type_synonym ref = nat

type_synonym store = "dataframe list"

definition setitem :: "ref \<Rightarrow> string \<Rightarrow> column \<Rightarrow> store \<Rightarrow> store" where
  "setitem df c col s = s[df := set_col c col (s ! df)]"

fun apply_each :: "('a \<Rightarrow> error + 'b) \<Rightarrow> 'a list \<Rightarrow> error + 'b list" where
  "apply_each f [] = Inr []"
| "apply_each f (x # xs) =
     (case f x of
        Inl e \<Rightarrow> Inl e
      | Inr y \<Rightarrow> (case apply_each f xs of Inl e \<Rightarrow> Inl e | Inr ys \<Rightarrow> Inr (y # ys)))"

section \<open>Column arithmetic\<close>

text \<open>
  A column whose cells are all numbers has a numeric dtype, and numpy computes on it
  without raising. A column whose cells are all dates has a datetime dtype, which accepts
  neither the division nor the subtraction of the source. Any other column has dtype
  \<^verbatim>\<open>object\<close>: pandas first applies Python's own operator cell by cell, where the
  first cell that fails raises; if that raised \<^verbatim>\<open>TypeError\<close>, pandas computes once
  more, on the cells that are not missing only, and makes the others NaN.
\<close>

fun num_of :: "cell \<Rightarrow> pyfloat option" where
  "num_of (PyInt i) = Some (Fin (of_int i))"
| "num_of (PyFloat x) = Some x"
| "num_of _ = None"

definition is_numeric :: "column \<Rightarrow> bool" where
  "is_numeric col = list_all (\<lambda>c. num_of c \<noteq> None) col"

fun is_datetime :: "cell \<Rightarrow> bool" where
  "is_datetime (Timestamp y m d) = True"
| "is_datetime NaT = True"
| "is_datetime _ = False"

fun isna :: "cell \<Rightarrow> bool" where
  "isna PyNone = True"
| "isna (PyFloat NaN) = True"
| "isna NaT = True"
| "isna _ = False"

text \<open>Division of floats as numpy's \<^verbatim>\<open>true_divide\<close> does it: a zero divisor gives an
  infinity or NaN, never an exception.\<close>

fun fl_div :: "pyfloat \<Rightarrow> pyfloat \<Rightarrow> pyfloat" where
  "fl_div NaN _ = NaN"
| "fl_div _ NaN = NaN"
| "fl_div (Fin a) (Fin b) =
     (if b = 0 then (if 0 < a then PosInf else if a < 0 then NegInf else NaN)
      else Fin (a / b))"
| "fl_div (Fin a) _ = Fin 0"
| "fl_div PosInf (Fin b) = (if b < 0 then NegInf else PosInf)"
| "fl_div NegInf (Fin b) = (if b < 0 then PosInf else NegInf)"
| "fl_div _ _ = NaN"

text \<open>
  Python's own \<^verbatim>\<open>/\<close> on two cells: a zero divisor raises, a missing date divided by
  a number stays a missing date, and any other pair that is not two numbers is a
  \<^verbatim>\<open>TypeError\<close>.
\<close>

definition py_truediv :: "cell \<times> cell \<Rightarrow> error + cell" where
  "py_truediv p =
     (case (num_of (fst p), num_of (snd p)) of
        (Some a, Some b) \<Rightarrow>
          if b = Fin 0 then Inl ZeroDivisionError else Inr (PyFloat (fl_div a b))
      | (None, Some b) \<Rightarrow> if fst p = NaT then Inr NaT else Inl TypeError
      | (None, None) \<Rightarrow>
          if fst p = NaT \<and> snd p = NaT then Inr (PyFloat NaN) else Inl TypeError
      | _ \<Rightarrow> Inl TypeError)"

definition masked_truediv :: "cell \<times> cell \<Rightarrow> error + cell" where
  "masked_truediv p =
     (if isna (fst p) \<or> isna (snd p) then Inr (PyFloat NaN) else py_truediv p)"

definition col_div :: "column \<Rightarrow> column \<Rightarrow> error + column" where
  "col_div xs ys =
     (if is_numeric xs \<and> is_numeric ys
      then Inr (map (\<lambda>p. case (num_of (fst p), num_of (snd p)) of
                           (Some a, Some b) \<Rightarrow> PyFloat (fl_div a b)
                         | _ \<Rightarrow> PyFloat NaN) (zip xs ys))
      else if (\<not> is_numeric xs \<and> list_all is_datetime xs) \<or>
              (\<not> is_numeric ys \<and> list_all is_datetime ys)
      then Inl TypeError
      else
        (case apply_each py_truediv (zip xs ys) of
           Inr q \<Rightarrow> Inr q
         | Inl e \<Rightarrow>
             if e = TypeError then apply_each masked_truediv (zip xs ys) else Inl e))"

text \<open>Python's own \<^verbatim>\<open>n - c\<close> for an integer \<open>n\<close> and a cell \<open>c\<close>.\<close>

fun py_rsub :: "int \<Rightarrow> cell \<Rightarrow> error + cell" where
  "py_rsub n (PyInt y) = Inr (PyInt (n - y))"
| "py_rsub n (PyFloat (Fin y)) = Inr (PyFloat (Fin (of_int n - y)))"
| "py_rsub n (PyFloat PosInf) = Inr (PyFloat NegInf)"
| "py_rsub n (PyFloat NegInf) = Inr (PyFloat PosInf)"
| "py_rsub n (PyFloat NaN) = Inr (PyFloat NaN)"
| "py_rsub n NaT = Inr NaT"
| "py_rsub n _ = Inl TypeError"

definition masked_rsub :: "int \<Rightarrow> cell \<Rightarrow> error + cell" where
  "masked_rsub n c = (if isna c then Inr (PyFloat NaN) else py_rsub n c)"

definition col_rsub :: "int \<Rightarrow> column \<Rightarrow> error + column" where
  "col_rsub n col =
     (if is_numeric col then apply_each (py_rsub n) col
      else if list_all is_datetime col then Inl TypeError
      else
        (case apply_each (py_rsub n) col of
           Inr q \<Rightarrow> Inr q
         | Inl e \<Rightarrow> apply_each (masked_rsub n) col))"

section \<open>\<^verbatim>\<open>pd.cut\<close>\<close>

text \<open>
  With its defaults (\<^verbatim>\<open>right=True\<close>, \<^verbatim>\<open>include_lowest=False\<close>) \<^verbatim>\<open>pd.cut\<close> finds
  for each value the left insertion point among the bin edges, that is the number of
  edges strictly below the value, and makes the value missing when it is NaN or when
  the insertion point is \<open>0\<close> or the number of edges. Otherwise the label is the one
  before the insertion point.
\<close>

fun fl_less :: "pyfloat \<Rightarrow> pyfloat \<Rightarrow> bool" where
  "fl_less NaN _ = False"
| "fl_less _ NaN = False"
| "fl_less (Fin a) (Fin b) = (a < b)"
| "fl_less (Fin a) PosInf = True"
| "fl_less NegInf (Fin b) = True"
| "fl_less NegInf PosInf = True"
| "fl_less _ _ = False"

definition searchsorted_left :: "pyfloat list \<Rightarrow> pyfloat \<Rightarrow> nat" where
  "searchsorted_left bins x = length (takeWhile (\<lambda>b. fl_less b x) bins)"

definition cut_cell :: "pyfloat list \<Rightarrow> string list \<Rightarrow> pyfloat \<Rightarrow> cell" where
  "cut_cell bins labels x =
     (let ids = searchsorted_left bins x
      in if x = NaN \<or> ids = length bins \<or> ids = 0 then PyFloat NaN
         else PyStr (labels ! (ids - 1)))"

definition pd_cut :: "column \<Rightarrow> pyfloat list \<Rightarrow> string list \<Rightarrow> error + column" where
  "pd_cut col bins labels =
     (if length labels + 1 \<noteq> length bins then Inl ValueError
      else case those (map num_of col) of
             None \<Rightarrow> Inl TypeError
           | Some xs \<Rightarrow> Inr (map (cut_cell bins labels) xs))"

section \<open>The year of a date column\<close>

fun year_int :: "cell \<Rightarrow> cell" where
  "year_int (Timestamp y m d) = PyInt y"
| "year_int c = PyFloat NaN"

fun year_float :: "cell \<Rightarrow> cell" where
  "year_float (Timestamp y m d) = PyFloat (Fin (of_int y))"
| "year_float c = PyFloat NaN"

text \<open>\<^verbatim>\<open>.dt.year\<close>: only a datetime column has the accessor; the years are integers
  unless a date is missing, and then they are floats with NaN.\<close>

definition dt_year :: "column \<Rightarrow> error + column" where
  "dt_year col =
     (if list_all is_datetime col
      then Inr (if NaT \<in> set col then map year_float col else map year_int col)
      else Inl AttributeError)"

section \<open>Renaming the columns\<close>

text \<open>The accented letters of the source's labels are written by their code points.\<close>

definition mapeamento :: "(string \<times> string) list" where
  "mapeamento =
     [(''Nome da Empresa'', ''nome_empresa''),
      (''Setor'', ''setor''),
      (''Receita Anual'', ''receita_anual''),
      (''N'' @ [CHR 0xBA] @ '' de Funcion'' @ [CHR 0xE1] @ ''rios'', ''numero_funcionarios''),
      (''N'' @ [CHR 0xBA] @ '' Funcion'' @ [CHR 0xE1] @ ''rios'', ''numero_funcionarios''),
      (''Pa'' @ [CHR 0xED] @ ''s'', ''pais''),
      (''Data de Funda'' @ [CHR 0xE7, CHR 0xE3] @ ''o'', ''data_fundacao''),
      (''Ano de Funda'' @ [CHR 0xE7, CHR 0xE3] @ ''o'', ''ano_fundacao''),
      (''Ano Funda'' @ [CHR 0xE7, CHR 0xE3] @ ''o'', ''ano_fundacao''),
      (''ID'', ''id'')]"

text \<open>\<^verbatim>\<open>{col: mapeamento[col] for col in df.columns if col in mapeamento}\<close>\<close>

definition colunas_para_renomear :: "dataframe \<Rightarrow> (string \<times> string) list" where
  "colunas_para_renomear df =
     concat (map (\<lambda>col. case map_of mapeamento col of
                           None \<Rightarrow> []
                         | Some novo \<Rightarrow> [(col, novo)]) (columns df))"

text \<open>\<^verbatim>\<open>df.rename(columns=d)\<close> builds a new table; a label that is no key of \<open>d\<close> stays.\<close>

definition rename :: "(string \<times> string) list \<Rightarrow> dataframe \<Rightarrow> dataframe" where
  "rename d df =
     map (\<lambda>p. (case map_of d (fst p) of None \<Rightarrow> fst p | Some novo \<Rightarrow> novo, snd p)) df"

text \<open>Lines 104 to 120 of \<^verbatim>\<open>normalizar_colunas\<close>: the local variable \<^verbatim>\<open>df\<close> is bound
  to a new table object only when some column is renamed.\<close>

definition renomear_colunas :: "ref \<Rightarrow> store \<Rightarrow> ref \<times> store" where
  "renomear_colunas df s =
     (let d = colunas_para_renomear (s ! df)
      in if d \<noteq> [] then (length s, s @ [rename d (s ! df)]) else (df, s))"

section \<open>The derived columns\<close>

text \<open>Lines 123 to 128: the founding year from the founding date. The bare
  \<^verbatim>\<open>except\<close> absorbs every error; what was assigned before the error stays assigned.
  \<^verbatim>\<open>pd.to_datetime\<close> is a parameter.\<close>

definition derivar_ano_fundacao :: "(column \<Rightarrow> error + column) \<Rightarrow> ref \<Rightarrow> store \<Rightarrow> store" where
  "derivar_ano_fundacao to_datetime df s =
     (if ''ano_fundacao'' \<notin> set (columns (s ! df)) \<and> ''data_fundacao'' \<in> set (columns (s ! df))
      then
        (case get_col (s ! df) ''data_fundacao'' of
           Inl e \<Rightarrow> s
         | Inr datas \<Rightarrow>
             (case to_datetime datas of
                Inl e \<Rightarrow> s
              | Inr convertidas \<Rightarrow>
                  (let s1 = setitem df ''data_fundacao'' convertidas s
                   in case get_col (s1 ! df) ''data_fundacao'' of
                        Inl e \<Rightarrow> s1
                      | Inr col \<Rightarrow>
                          (case dt_year col of
                             Inl e \<Rightarrow> s1
                           | Inr anos \<Rightarrow> setitem df ''ano_fundacao'' anos s1))))
      else s)"

text \<open>Lines 131 to 133.\<close>

definition derivar_receita_por_funcionario :: "ref \<Rightarrow> store \<Rightarrow> error + store" where
  "derivar_receita_por_funcionario df s =
     (if ''receita_anual'' \<in> set (columns (s ! df)) \<and>
         ''numero_funcionarios'' \<in> set (columns (s ! df))
      then
        (case get_col (s ! df) ''receita_anual'' of
           Inl e \<Rightarrow> Inl e
         | Inr receita \<Rightarrow>
             (case get_col (s ! df) ''numero_funcionarios'' of
                Inl e \<Rightarrow> Inl e
              | Inr funcionarios \<Rightarrow>
                  (case col_div receita funcionarios of
                     Inl e \<Rightarrow> Inl e
                   | Inr q \<Rightarrow> Inr (setitem df ''receita_por_funcionario'' q s))))
      else Inr s)"

text \<open>Lines 136 to 139.\<close>

definition bins :: "pyfloat list" where
  "bins = [Fin 0, Fin 10000000, Fin 100000000, Fin 500000000, Fin 1000000000, PosInf]"

definition labels :: "string list" where
  "labels =
     [''Micro'', ''Pequena'', ''M'' @ [CHR 0xE9] @ ''dia'', ''Grande'',
      ''Corpora'' @ [CHR 0xE7, CHR 0xE3] @ ''o'']"

definition derivar_porte :: "ref \<Rightarrow> store \<Rightarrow> error + store" where
  "derivar_porte df s =
     (if ''receita_anual'' \<in> set (columns (s ! df))
      then
        (case get_col (s ! df) ''receita_anual'' of
           Inl e \<Rightarrow> Inl e
         | Inr receita \<Rightarrow>
             (case pd_cut receita bins labels of
                Inl e \<Rightarrow> Inl e
              | Inr porte \<Rightarrow> Inr (setitem df ''porte'' porte s)))
      else Inr s)"

text \<open>Lines 142 to 144; the current year is a parameter.\<close>

definition derivar_idade_empresa :: "int \<Rightarrow> ref \<Rightarrow> store \<Rightarrow> error + store" where
  "derivar_idade_empresa ano_atual df s =
     (if ''ano_fundacao'' \<in> set (columns (s ! df))
      then
        (case get_col (s ! df) ''ano_fundacao'' of
           Inl e \<Rightarrow> Inl e
         | Inr anos \<Rightarrow>
             (case col_rsub ano_atual anos of
                Inl e \<Rightarrow> Inl e
              | Inr idades \<Rightarrow> Inr (setitem df ''idade_empresa'' idades s)))
      else Inr s)"

text \<open>
  \<^verbatim>\<open>normalizar_colunas\<close> takes the reference of the caller's table and returns the
  reference of the table it returns, or the error it raises, together with the store it
  leaves behind.
\<close>

definition normalizar_colunas ::
  "(column \<Rightarrow> error + column) \<Rightarrow> int \<Rightarrow> ref \<Rightarrow> store \<Rightarrow> (error + ref) \<times> store" where
  "normalizar_colunas to_datetime ano_atual df0 s0 =
     (let (df, s1) = renomear_colunas df0 s0;
          s2 = derivar_ano_fundacao to_datetime df s1
      in case derivar_receita_por_funcionario df s2 of
           Inl e \<Rightarrow> (Inl e, s2)
         | Inr s3 \<Rightarrow>
             (case derivar_porte df s3 of
                Inl e \<Rightarrow> (Inl e, s3)
              | Inr s4 \<Rightarrow>
                  (case derivar_idade_empresa ano_atual df s4 of
                     Inl e \<Rightarrow> (Inl e, s4)
                   | Inr s5 \<Rightarrow> (Inr df, s5))))"

section \<open>Country codes\<close>

text \<open>\<^verbatim>\<open>pycountry.countries.search_fuzzy\<close> is a parameter: it returns the matches by
  relevance or raises.\<close>

record country =
  alpha_2 :: string
  alpha_3 :: string

definition obter_codigo_pais_try :: "(cell \<Rightarrow> error + country list) \<Rightarrow> cell \<Rightarrow> error + cell" where
  "obter_codigo_pais_try search_fuzzy nome_pais =
     (case search_fuzzy nome_pais of
        Inl e \<Rightarrow> Inl e
      | Inr pais \<Rightarrow>
          (case pais of
             [] \<Rightarrow> Inr PyNone
           | p # ps \<Rightarrow> Inr (PyStr (alpha_3 p))))"

definition obter_codigo_pais :: "(cell \<Rightarrow> error + country list) \<Rightarrow> cell \<Rightarrow> error + cell" where
  "obter_codigo_pais search_fuzzy nome_pais =
     (case obter_codigo_pais_try search_fuzzy nome_pais of
        Inl e \<Rightarrow> Inr PyNone
      | Inr codigo \<Rightarrow> Inr codigo)"

section \<open>The module's pipeline\<close>

text \<open>Lines 159 to 171 of the module, from the table that \<^verbatim>\<open>carregar_dados\<close>
  returned: normalise, then coerce the revenue column, then add the country codes.
  \<^verbatim>\<open>Series.apply\<close> calls the function on each cell in order.\<close>

definition coagir_receita :: "ref \<Rightarrow> store \<Rightarrow> error + store" where
  "coagir_receita df s =
     (if ''receita_anual'' \<in> set (columns (s ! df))
      then
        (case get_col (s ! df) ''receita_anual'' of
           Inl e \<Rightarrow> Inl e
         | Inr receita \<Rightarrow>
             (case apply_each converter_para_float receita of
                Inl e \<Rightarrow> Inl e
              | Inr floats \<Rightarrow> Inr (setitem df ''receita_anual'' floats s)))
      else Inr s)"

definition adicionar_codigo_pais ::
  "(cell \<Rightarrow> error + country list) \<Rightarrow> ref \<Rightarrow> store \<Rightarrow> error + store" where
  "adicionar_codigo_pais search_fuzzy df s =
     (if ''pais'' \<in> set (columns (s ! df))
      then
        (case get_col (s ! df) ''pais'' of
           Inl e \<Rightarrow> Inl e
         | Inr paises \<Rightarrow>
             (case apply_each (obter_codigo_pais search_fuzzy) paises of
                Inl e \<Rightarrow> Inl e
              | Inr codigos \<Rightarrow> Inr (setitem df ''codigo_pais'' codigos s)))
      else Inr s)"

definition pipeline ::
  "(column \<Rightarrow> error + column) \<Rightarrow> int \<Rightarrow> (cell \<Rightarrow> error + country list) \<Rightarrow> dataframe
     \<Rightarrow> error + dataframe" where
  "pipeline to_datetime ano_atual search_fuzzy dados =
     (case normalizar_colunas to_datetime ano_atual 0 [dados] of
        (Inl e, s) \<Rightarrow> Inl e
      | (Inr df, s1) \<Rightarrow>
          (case coagir_receita df s1 of
             Inl e \<Rightarrow> Inl e
           | Inr s2 \<Rightarrow>
               (case adicionar_codigo_pais search_fuzzy df s2 of
                  Inl e \<Rightarrow> Inl e
                | Inr s3 \<Rightarrow> Inr (s3 ! df))))"

text \<open>A small matcher that knows one country, finds nothing for one name and raises
  for every other, to evaluate the lookup on concrete names.\<close>

definition search_exemplo :: "cell \<Rightarrow> error + country list" where
  "search_exemplo nome =
     (if nome = PyStr ''Brasil'' then Inr [\<lparr>alpha_2 = ''BR'', alpha_3 = ''BRA''\<rparr>]
      else if nome = PyStr ''Terra'' then Inr []
      else Inl LookupError)"

section \<open>Properties of the revenue coercion\<close>

lemmas float_defs =
  float_of_str_def string_to_double_def parse_sign_def parse_exponent_def in_class_def
  is_space_def is_float_space_def is_digit_def strip_def to_lower_def dec_value_def
  digit_val_def scale10_def

lemma re_sub_class_filter: "re_sub_class valor = filter (\<lambda>c. \<not> in_class c) valor"
  by (induction valor) simp_all

lemma replace_comma_map:
  "replace_comma s = map (\<lambda>c. if c = CHR '','' then CHR ''.'' else c) s"
  by (induction s) simp_all

lemma re_sub_class_idem: "re_sub_class (filter (\<lambda>c. \<not> in_class c) valor) = re_sub_class valor"
  by (simp add: re_sub_class_filter)

lemma re_sub_class_drop:
  "in_class c \<Longrightarrow> re_sub_class (a @ c # b) = re_sub_class (a @ b)"
  by (simp add: re_sub_class_filter)








text \<open>
  C2. The claim: a cell that is neither a number nor a string that parses as a number
  is coerced to the missing value and nothing is raised. The source has no handler
  around \<^verbatim>\<open>float(limpo)\<close>: on the string \<^verbatim>\<open>abc\<close> the function raises
  \<^verbatim>\<open>ValueError\<close>, while a cell that is no number and no string does become NaN.
\<close>

theorem converter_para_float_unparseable_raises:
  "converter_para_float (PyStr ''abc'') = Inl ValueError \<and>
   converter_para_float PyNone = Inr (PyFloat NaN)"
  by (simp add: float_defs)




text \<open>
  C10. The coercion of a string is the parse of the string from which every \<^verbatim>\<open>R\<close>,
  \<^verbatim>\<open>$\<close>, dot and white-space character has been deleted, wherever it stands, and in
  which each comma has then become a dot. So a character of that class can be dropped
  from any place of the string, and all of them can be deleted beforehand, without
  changing what the coercion returns; a dot never acts as a decimal point, and
  \<^verbatim>\<open>1234.56\<close> is coerced to 123456.
\<close>

theorem converter_para_float_deletes_class:
  "converter_para_float (PyStr valor) =
     (case float_of_str
             (map (\<lambda>c. if c = CHR '','' then CHR ''.'' else c)
                (filter (\<lambda>c. c \<noteq> CHR ''R'' \<and> c \<noteq> CHR ''$'' \<and> \<not> is_space c \<and> c \<noteq> CHR ''.'')
                   valor)) of
        Inl e \<Rightarrow> Inl e
      | Inr x \<Rightarrow> Inr (PyFloat x)) \<and>
   ((c = CHR ''R'' \<or> c = CHR ''$'' \<or> is_space c \<or> c = CHR ''.'') \<longrightarrow>
      converter_para_float (PyStr (a @ c # b)) = converter_para_float (PyStr (a @ b))) \<and>
   converter_para_float
     (PyStr (filter (\<lambda>c. c \<noteq> CHR ''R'' \<and> c \<noteq> CHR ''$'' \<and> \<not> is_space c \<and> c \<noteq> CHR ''.'') valor)) =
     converter_para_float (PyStr valor) \<and>
   converter_para_float (PyStr ''1234.56'') = Inr (PyFloat (Fin 123456)) \<and>
   converter_para_float (PyStr ''1R2 3$4.5'') = Inr (PyFloat (Fin 12345))"
proof -
  have cls: "(\<lambda>c. c \<noteq> CHR ''R'' \<and> c \<noteq> CHR ''$'' \<and> \<not> is_space c \<and> c \<noteq> CHR ''.'') =
      (\<lambda>c. \<not> in_class c)"
    by (auto simp: in_class_def)
  have p1: "converter_para_float (PyStr valor) =
     (case float_of_str
             (map (\<lambda>c. if c = CHR '','' then CHR ''.'' else c)
                (filter (\<lambda>c. c \<noteq> CHR ''R'' \<and> c \<noteq> CHR ''$'' \<and> \<not> is_space c \<and> c \<noteq> CHR ''.'')
                   valor)) of
        Inl e \<Rightarrow> Inl e
      | Inr x \<Rightarrow> Inr (PyFloat x))"
    unfolding cls by (simp add: re_sub_class_filter replace_comma_map)
  have p2: "(c = CHR ''R'' \<or> c = CHR ''$'' \<or> is_space c \<or> c = CHR ''.'') \<longrightarrow>
      converter_para_float (PyStr (a @ c # b)) = converter_para_float (PyStr (a @ b))"
  proof
    assume "c = CHR ''R'' \<or> c = CHR ''$'' \<or> is_space c \<or> c = CHR ''.''"
    then have "in_class c" by (simp add: in_class_def)
    then have "re_sub_class (a @ c # b) = re_sub_class (a @ b)" by (rule re_sub_class_drop)
    then show "converter_para_float (PyStr (a @ c # b)) = converter_para_float (PyStr (a @ b))"
      by simp
  qed
  have p3: "converter_para_float
     (PyStr (filter (\<lambda>c. c \<noteq> CHR ''R'' \<and> c \<noteq> CHR ''$'' \<and> \<not> is_space c \<and> c \<noteq> CHR ''.'') valor)) =
     converter_para_float (PyStr valor)"
    unfolding cls by (simp add: re_sub_class_idem)
  have p4: "converter_para_float (PyStr ''1234.56'') = Inr (PyFloat (Fin 123456))"
    by (simp add: float_defs)
  have p5: "converter_para_float (PyStr ''1R2 3$4.5'') = Inr (PyFloat (Fin 12345))"
    by (simp add: float_defs)
  from p1 p2 p3 p4 p5 show ?thesis by blast
qed

theorem converter_para_float_deletes_class_witness:
  "is_space CHR '' '' \<and>
   converter_para_float (PyStr ''12 34'') = Inr (PyFloat (Fin 1234)) \<and>
   converter_para_float (PyStr ''1234'') = Inr (PyFloat (Fin 1234))"
proof -
  have sp: "is_space CHR '' ''" by (simp add: is_space_def)
  have v: "converter_para_float (PyStr ''1234'') = Inr (PyFloat (Fin 1234))"
    by (simp add: float_defs)
  from converter_para_float_deletes_class [of "''''" "CHR '' ''" "''12''" "''34''"] sp v
  show ?thesis by simp
qed

section \<open>Properties of the renaming\<close>

lemma canon_disjoint: "set (map snd mapeamento) \<inter> set (map fst mapeamento) = {}"
  by (simp add: mapeamento_def)

lemma mapeamento_fixed: "map_of mapeamento l = Some c \<Longrightarrow> map_of mapeamento c = None"
proof -
  assume "map_of mapeamento l = Some c"
  then have "(l, c) \<in> set mapeamento" by (rule map_of_SomeD)
  then have "c \<in> set (map snd mapeamento)" by force
  with canon_disjoint have "c \<notin> set (map fst mapeamento)" by blast
  then show ?thesis by (simp add: map_of_eq_None_iff)
qed

lemma map_of_selected:
  "map_of (concat (map (\<lambda>col. case m col of None \<Rightarrow> [] | Some novo \<Rightarrow> [(col, novo)]) ls)) l =
     (if l \<in> set ls then m l else None)"
  by (induction ls) (auto split: option.splits)

lemma selected_empty:
  "concat (map (\<lambda>col. case m col of None \<Rightarrow> [] | Some novo \<Rightarrow> [(col, novo)]) ls) = [] \<longleftrightarrow>
     (\<forall>l \<in> set ls. m l = None)"
  by (induction ls) (auto split: option.splits)

lemma map_of_colunas_para_renomear:
  "map_of (colunas_para_renomear df) l =
     (if l \<in> set (columns df) then map_of mapeamento l else None)"
  unfolding colunas_para_renomear_def by (rule map_of_selected)

lemma colunas_para_renomear_empty:
  "colunas_para_renomear df = [] \<longleftrightarrow> (\<forall>l \<in> set (columns df). map_of mapeamento l = None)"
  unfolding colunas_para_renomear_def by (rule selected_empty)

lemma rename_data: "map snd (rename d df) = map snd df"
  by (simp add: rename_def comp_def)

lemma rename_columns:
  "columns (rename (colunas_para_renomear df) df) =
     map (\<lambda>l. case map_of mapeamento l of None \<Rightarrow> l | Some novo \<Rightarrow> novo) (columns df)"
  by (simp add: rename_def columns_def comp_def map_of_colunas_para_renomear)

lemma unrenamed_columns:
  assumes "colunas_para_renomear df = []"
  shows "columns df = map (\<lambda>l. case map_of mapeamento l of None \<Rightarrow> l | Some novo \<Rightarrow> novo) (columns df)"
proof -
  from assms have "\<forall>l \<in> set (columns df). map_of mapeamento l = None"
    by (simp add: colunas_para_renomear_empty)
  then have "map (\<lambda>l. case map_of mapeamento l of None \<Rightarrow> l | Some novo \<Rightarrow> novo) (columns df) = map (\<lambda>l. l) (columns df)"
    by (intro map_cong) auto
  then show ?thesis by simp
qed

lemma renamed_nothing_left:
  "colunas_para_renomear (rename (colunas_para_renomear df) df) = []"
proof -
  have "map_of mapeamento l = None"
    if "l \<in> set (columns (rename (colunas_para_renomear df) df))" for l
  proof -
    from that obtain l0 where l0: "l0 \<in> set (columns df)"
      and l: "l = (case map_of mapeamento l0 of None \<Rightarrow> l0 | Some novo \<Rightarrow> novo)"
      unfolding rename_columns by auto
    show ?thesis
    proof (cases "map_of mapeamento l0")
      case None
      with l show ?thesis by simp
    next
      case (Some novo)
      with l mapeamento_fixed [of l0 novo] show ?thesis by simp
    qed
  qed
  then show ?thesis by (simp add: colunas_para_renomear_empty)
qed

lemma canonical_names:
  "map_of mapeamento l = Some novo \<Longrightarrow>
     novo \<in> {''nome_empresa'', ''setor'', ''receita_anual'', ''numero_funcionarios'', ''pais'',
             ''data_fundacao'', ''ano_fundacao'', ''id''}"
proof -
  assume "map_of mapeamento l = Some novo"
  then have "(l, novo) \<in> set mapeamento" by (rule map_of_SomeD)
  then have "novo \<in> set (map snd mapeamento)" by force
  then show ?thesis by (simp add: mapeamento_def)
qed

text \<open>
  C6. After the renaming step the table has the same columns with the same data in the
  same order; a label that is a key of the mapping is replaced by its one canonical
  name, every other label is left as it is; and when no label is a key, the step
  returns the table it was given and changes nothing.
\<close>

theorem renomear_colunas_renames:
  assumes "renomear_colunas df s = (df', s')"
  shows "map snd (s' ! df') = map snd (s ! df) \<and>
         columns (s' ! df') =
           map (\<lambda>l. case map_of mapeamento l of None \<Rightarrow> l | Some novo \<Rightarrow> novo) (columns (s ! df)) \<and>
         (\<forall>l novo. map_of mapeamento l = Some novo \<longrightarrow>
            novo \<in> {''nome_empresa'', ''setor'', ''receita_anual'', ''numero_funcionarios'',
                    ''pais'', ''data_fundacao'', ''ano_fundacao'', ''id''}) \<and>
         ((\<forall>l \<in> set (columns (s ! df)). map_of mapeamento l = None) \<longrightarrow> df' = df \<and> s' = s)"
proof -
  have canon: "\<forall>l novo. map_of mapeamento l = Some novo \<longrightarrow>
      novo \<in> {''nome_empresa'', ''setor'', ''receita_anual'', ''numero_funcionarios'',
              ''pais'', ''data_fundacao'', ''ano_fundacao'', ''id''}"
    using canonical_names by (intro allI impI)
  have rest: "map snd (s' ! df') = map snd (s ! df) \<and>
         columns (s' ! df') =
           map (\<lambda>l. case map_of mapeamento l of None \<Rightarrow> l | Some novo \<Rightarrow> novo) (columns (s ! df)) \<and>
         ((\<forall>l \<in> set (columns (s ! df)). map_of mapeamento l = None) \<longrightarrow> df' = df \<and> s' = s)"
  proof (cases "colunas_para_renomear (s ! df) = []")
    case True
    with assms have eq: "df' = df" "s' = s" by (simp_all add: renomear_colunas_def)
    from True have "columns (s ! df) =
        map (\<lambda>l. case map_of mapeamento l of None \<Rightarrow> l | Some novo \<Rightarrow> novo) (columns (s ! df))"
      by (rule unrenamed_columns)
    with eq show ?thesis by simp
  next
    case False
    with assms have eq: "df' = length s"
      "s' = s @ [rename (colunas_para_renomear (s ! df)) (s ! df)]"
      by (simp_all add: renomear_colunas_def Let_def)
    then have obj: "s' ! df' = rename (colunas_para_renomear (s ! df)) (s ! df)" by simp
    from False have no: "\<not> (\<forall>l \<in> set (columns (s ! df)). map_of mapeamento l = None)"
      by (simp add: colunas_para_renomear_empty)
    have d: "map snd (s' ! df') = map snd (s ! df)"
      unfolding obj by (rule rename_data)
    have c: "columns (s' ! df') =
        map (\<lambda>l. case map_of mapeamento l of None \<Rightarrow> l | Some novo \<Rightarrow> novo) (columns (s ! df))"
      unfolding obj by (rule rename_columns)
    from d c no show ?thesis by blast
  qed
  from rest canon show ?thesis by blast
qed

theorem renomear_colunas_renames_witness:
  "renomear_colunas 0 [[(''Setor'', [PyStr ''RH'']), (''extra'', [PyInt 1])]] =
     (1, [[(''Setor'', [PyStr ''RH'']), (''extra'', [PyInt 1])],
          [(''setor'', [PyStr ''RH'']), (''extra'', [PyInt 1])]]) \<and>
   columns ([[(''Setor'', [PyStr ''RH'']), (''extra'', [PyInt 1])],
             [(''setor'', [PyStr ''RH'']), (''extra'', [PyInt 1])]] ! 1) = [''setor'', ''extra''] \<and>
   renomear_colunas 0 [[(''extra'', [PyInt 1])]] = (0, [[(''extra'', [PyInt 1])]])"
proof -
  have a: "renomear_colunas 0 [[(''Setor'', [PyStr ''RH'']), (''extra'', [PyInt 1])]] =
     (1, [[(''Setor'', [PyStr ''RH'']), (''extra'', [PyInt 1])],
          [(''setor'', [PyStr ''RH'']), (''extra'', [PyInt 1])]])"
    by (simp add: renomear_colunas_def colunas_para_renomear_def rename_def columns_def
        mapeamento_def)
  have b: "renomear_colunas 0 [[(''extra'', [PyInt 1])]] = (0, [[(''extra'', [PyInt 1])]])"
    by (simp add: renomear_colunas_def colunas_para_renomear_def rename_def columns_def
        mapeamento_def)
  have m: "map_of mapeamento ''Setor'' = Some ''setor''" "map_of mapeamento ''extra'' = None"
    by (simp_all add: mapeamento_def)
  from renomear_colunas_renames [OF a] renomear_colunas_renames [OF b] a b m
  show ?thesis by (simp add: columns_def)
qed

text \<open>
  C7. Renaming is idempotent: running the renaming step on its own result renames
  nothing and returns that same table.
\<close>

theorem renomear_colunas_idempotent:
  assumes "renomear_colunas df s = (df', s')"
  shows "renomear_colunas df' s' = (df', s')"
proof -
  have "colunas_para_renomear (s' ! df') = []"
  proof (cases "colunas_para_renomear (s ! df) = []")
    case True
    with assms show ?thesis by (simp add: renomear_colunas_def)
  next
    case False
    with assms have "s' ! df' = rename (colunas_para_renomear (s ! df)) (s ! df)"
      by (auto simp: renomear_colunas_def Let_def)
    then show ?thesis by (simp add: renamed_nothing_left)
  qed
  then show ?thesis by (simp add: renomear_colunas_def)
qed

theorem renomear_colunas_idempotent_witness:
  "renomear_colunas 0 [[(''Setor'', [PyStr ''RH''])]] =
     (1, [[(''Setor'', [PyStr ''RH''])], [(''setor'', [PyStr ''RH''])]]) \<and>
   renomear_colunas 1 [[(''Setor'', [PyStr ''RH''])], [(''setor'', [PyStr ''RH''])]] =
     (1, [[(''Setor'', [PyStr ''RH''])], [(''setor'', [PyStr ''RH''])]])"
proof -
  have a: "renomear_colunas 0 [[(''Setor'', [PyStr ''RH''])]] =
     (1, [[(''Setor'', [PyStr ''RH''])], [(''setor'', [PyStr ''RH''])]])"
    by (simp add: renomear_colunas_def colunas_para_renomear_def rename_def columns_def
        mapeamento_def)
  from a renomear_colunas_idempotent [OF a] show ?thesis by simp
qed

section \<open>Properties of the derived columns\<close>

lemma get_col_in_columns: "get_col df c = Inr col \<Longrightarrow> c \<in> set (columns df)"
proof -
  assume a: "get_col df c = Inr col"
  have "filter (\<lambda>p. fst p = c) df \<noteq> []"
  proof
    assume "filter (\<lambda>p. fst p = c) df = []"
    with a show False by (simp add: get_col_def)
  qed
  then obtain p where "p \<in> set df" "fst p = c"
    by (metis (mono_tags, lifting) filter_False)
  then show ?thesis by (auto simp: columns_def)
qed

lemma those_numeric:
  "is_numeric col \<Longrightarrow>
     \<exists>xs. those (map num_of col) = Some xs \<and> length xs = length col \<and>
          (\<forall>i < length col. num_of (col ! i) = Some (xs ! i))"
proof (induction col)
  case Nil
  then show ?case by simp
next
  case (Cons c col)
  then have "is_numeric col" and "num_of c \<noteq> None" by (simp_all add: is_numeric_def)
  with Cons.IH obtain xs x where xs: "those (map num_of col) = Some xs" "length xs = length col"
    "\<forall>i < length col. num_of (col ! i) = Some (xs ! i)" and x: "num_of c = Some x"
    by auto
  have "\<forall>i < length (c # col). num_of ((c # col) ! i) = Some ((x # xs) ! i)"
  proof (intro allI impI)
    fix i assume "i < length (c # col)"
    then show "num_of ((c # col) ! i) = Some ((x # xs) ! i)"
      using xs(3) x by (cases i) simp_all
  qed
  with xs x show ?case by simp
qed

lemma cut_cell_Fin:
  "cut_cell bins labels (Fin v) =
     (if 0 < v \<and> v \<le> 10000000 then PyStr ''Micro''
      else if 10000000 < v \<and> v \<le> 100000000 then PyStr ''Pequena''
      else if 100000000 < v \<and> v \<le> 500000000 then PyStr (''M'' @ [CHR 0xE9] @ ''dia'')
      else if 500000000 < v \<and> v \<le> 1000000000 then PyStr ''Grande''
      else if 1000000000 < v then PyStr (''Corpora'' @ [CHR 0xE7, CHR 0xE3] @ ''o'')
      else PyFloat NaN)"
  by (simp add: cut_cell_def searchsorted_left_def bins_def labels_def)

lemma cut_cell_special:
  "cut_cell bins labels PosInf = PyStr (''Corpora'' @ [CHR 0xE7, CHR 0xE3] @ ''o'')"
  "cut_cell bins labels NegInf = PyFloat NaN"
  "cut_cell bins labels NaN = PyFloat NaN"
  by (simp_all add: cut_cell_def searchsorted_left_def bins_def labels_def)

text \<open>
  C1, as the code has it. On a numeric revenue column the tier of a row is decided by
  bounds that exclude the lower edge and include the upper one: a revenue in
  \<open>(0, 10M]\<close> is Micro, in \<open>(10M, 100M]\<close> Pequena, in \<open>(100M, 500M]\<close> Media, in
  \<open>(500M, 1B]\<close> Grande, and above \<open>1B\<close> (infinity included) Corporacao (the labels
  carry their accents in the code); a revenue that is missing, negative or zero has no
  tier.
\<close>

theorem derivar_porte_upper_inclusive:
  assumes "get_col (s ! df) ''receita_anual'' = Inr receita"
    and "is_numeric receita"
    and "i < length receita"
    and "num_of (receita ! i) = Some x"
  shows "\<exists>porte. derivar_porte df s = Inr (setitem df ''porte'' porte s) \<and>
           length porte = length receita \<and>
           porte ! i =
             (case x of
                Fin v \<Rightarrow>
                  if 0 < v \<and> v \<le> 10000000 then PyStr ''Micro''
                  else if 10000000 < v \<and> v \<le> 100000000 then PyStr ''Pequena''
                  else if 100000000 < v \<and> v \<le> 500000000 then PyStr (''M'' @ [CHR 0xE9] @ ''dia'')
                  else if 500000000 < v \<and> v \<le> 1000000000 then PyStr ''Grande''
                  else if 1000000000 < v then PyStr (''Corpora'' @ [CHR 0xE7, CHR 0xE3] @ ''o'')
                  else PyFloat NaN
              | PosInf \<Rightarrow> PyStr (''Corpora'' @ [CHR 0xE7, CHR 0xE3] @ ''o'')
              | NegInf \<Rightarrow> PyFloat NaN
              | NaN \<Rightarrow> PyFloat NaN)"
proof -
  from assms(2) obtain xs where xs: "those (map num_of receita) = Some xs"
    "length xs = length receita" "\<forall>i < length receita. num_of (receita ! i) = Some (xs ! i)"
    using those_numeric by blast
  from xs(3) assms(3,4) have xi: "xs ! i = x" by simp
  have len: "length labels + 1 = length bins" by (simp add: labels_def bins_def)
  from xs(1) len have cut: "pd_cut receita bins labels = Inr (map (cut_cell bins labels) xs)"
    by (simp add: pd_cut_def)
  from assms(1) have "''receita_anual'' \<in> set (columns (s ! df))" by (rule get_col_in_columns)
  with assms(1) cut
  have run: "derivar_porte df s = Inr (setitem df ''porte'' (map (cut_cell bins labels) xs) s)"
    by (simp add: derivar_porte_def)
  from xs(2) assms(3) xi have "map (cut_cell bins labels) xs ! i = cut_cell bins labels x"
    by simp
  also have "\<dots> =
             (case x of
                Fin v \<Rightarrow>
                  if 0 < v \<and> v \<le> 10000000 then PyStr ''Micro''
                  else if 10000000 < v \<and> v \<le> 100000000 then PyStr ''Pequena''
                  else if 100000000 < v \<and> v \<le> 500000000 then PyStr (''M'' @ [CHR 0xE9] @ ''dia'')
                  else if 500000000 < v \<and> v \<le> 1000000000 then PyStr ''Grande''
                  else if 1000000000 < v then PyStr (''Corpora'' @ [CHR 0xE7, CHR 0xE3] @ ''o'')
                  else PyFloat NaN
              | PosInf \<Rightarrow> PyStr (''Corpora'' @ [CHR 0xE7, CHR 0xE3] @ ''o'')
              | NegInf \<Rightarrow> PyFloat NaN
              | NaN \<Rightarrow> PyFloat NaN)"
    by (cases x) (simp_all only: cut_cell_Fin cut_cell_special pyfloat.case)
  finally have val: "map (cut_cell bins labels) xs ! i =
             (case x of
                Fin v \<Rightarrow>
                  if 0 < v \<and> v \<le> 10000000 then PyStr ''Micro''
                  else if 10000000 < v \<and> v \<le> 100000000 then PyStr ''Pequena''
                  else if 100000000 < v \<and> v \<le> 500000000 then PyStr (''M'' @ [CHR 0xE9] @ ''dia'')
                  else if 500000000 < v \<and> v \<le> 1000000000 then PyStr ''Grande''
                  else if 1000000000 < v then PyStr (''Corpora'' @ [CHR 0xE7, CHR 0xE3] @ ''o'')
                  else PyFloat NaN
              | PosInf \<Rightarrow> PyStr (''Corpora'' @ [CHR 0xE7, CHR 0xE3] @ ''o'')
              | NegInf \<Rightarrow> PyFloat NaN
              | NaN \<Rightarrow> PyFloat NaN)" .
  from xs(2) have "length (map (cut_cell bins labels) xs) = length receita" by simp
  with run val show ?thesis by blast
qed

theorem derivar_porte_upper_inclusive_witness:
  "derivar_porte 0 [[(''receita_anual'', [PyInt 9999999, PyFloat (Fin 10000000)])]] =
     Inr [[(''receita_anual'', [PyInt 9999999, PyFloat (Fin 10000000)]),
           (''porte'', [PyStr ''Micro'', PyStr ''Micro''])]]"
proof -
  have g: "get_col ([[(''receita_anual'', [PyInt 9999999, PyFloat (Fin 10000000)])]] ! 0)
      ''receita_anual'' = Inr [PyInt 9999999, PyFloat (Fin 10000000)]"
    by (simp add: get_col_def)
  have n: "is_numeric [PyInt 9999999, PyFloat (Fin 10000000)]"
    by (simp add: is_numeric_def)
  have i: "(1::nat) < length [PyInt 9999999, PyFloat (Fin 10000000)]" by simp
  have x: "num_of ([PyInt 9999999, PyFloat (Fin 10000000)] ! 1) = Some (Fin 10000000)" by simp
  from derivar_porte_upper_inclusive [OF g n i x]
  obtain porte where p: "derivar_porte 0 [[(''receita_anual'', [PyInt 9999999, PyFloat (Fin 10000000)])]] =
      Inr (setitem 0 ''porte'' porte [[(''receita_anual'', [PyInt 9999999, PyFloat (Fin 10000000)])]])"
    and "porte ! 1 = PyStr ''Micro''"
    by auto
  have e: "derivar_porte 0 [[(''receita_anual'', [PyInt 9999999, PyFloat (Fin 10000000)])]] =
     Inr [[(''receita_anual'', [PyInt 9999999, PyFloat (Fin 10000000)]),
           (''porte'', [PyStr ''Micro'', PyStr ''Micro''])]]"
    by (simp add: derivar_porte_def columns_def get_col_def pd_cut_def cut_cell_def
      searchsorted_left_def bins_def labels_def setitem_def set_col_def)
  from p e show ?thesis by simp
qed

text \<open>
  The claim as written puts each edge in the tier above it. The code does not: a revenue
  of 10,000,000 is Micro, one of 1,000,000,000 is Grande, and a revenue of zero has no
  tier.
\<close>

theorem derivar_porte_lower_inclusive_counterexample:
  "derivar_porte 0 [[(''receita_anual'', [PyInt 10000000, PyInt 1000000000, PyInt 0])]] =
     Inr [[(''receita_anual'', [PyInt 10000000, PyInt 1000000000, PyInt 0]),
           (''porte'', [PyStr ''Micro'', PyStr ''Grande'', PyFloat NaN])]]"
  by (simp add: derivar_porte_def columns_def get_col_def pd_cut_def cut_cell_def
      searchsorted_left_def bins_def labels_def setitem_def set_col_def)

lemma col_div_numeric_nth:
  assumes "is_numeric xs" and "is_numeric ys"
    and "i < length xs" and "i < length ys"
    and "num_of (xs ! i) = Some a" and "num_of (ys ! i) = Some b"
  shows "\<exists>q. col_div xs ys = Inr q \<and> q ! i = PyFloat (fl_div a b)"
proof -
  let ?f = "\<lambda>p. case (num_of (fst p), num_of (snd p)) of
                   (Some a, Some b) \<Rightarrow> PyFloat (fl_div a b)
                 | _ \<Rightarrow> PyFloat NaN"
  from assms(1,2) have r: "col_div xs ys = Inr (map ?f (zip xs ys))"
    by (simp add: col_div_def)
  from assms(3,4) have len: "i < length (zip xs ys)" by simp
  from assms(3,4) have z: "zip xs ys ! i = (xs ! i, ys ! i)" by (rule nth_zip)
  from len have "map ?f (zip xs ys) ! i = ?f (zip xs ys ! i)" by (rule nth_map)
  then have "map ?f (zip xs ys) ! i = ?f (xs ! i, ys ! i)" unfolding z .
  with assms(5,6) have "map ?f (zip xs ys) ! i = PyFloat (fl_div a b)" by simp
  with r show ?thesis by blast
qed

text \<open>
  C3, as the code has it. On numeric columns, for a row whose revenue and employee
  count are both finite numbers, the revenue per employee is the quotient when the
  employee count is not zero; when it is zero the value is still computed, as a float
  division by zero: plus infinity for a positive revenue, minus infinity for a negative
  one, and NaN only for a revenue of zero.
\<close>

theorem receita_por_funcionario_quotient:
  assumes "get_col (s ! df) ''receita_anual'' = Inr receita"
    and "get_col (s ! df) ''numero_funcionarios'' = Inr funcionarios"
    and "is_numeric receita" and "is_numeric funcionarios"
    and "i < length receita" and "i < length funcionarios"
    and "num_of (receita ! i) = Some (Fin a)"
    and "num_of (funcionarios ! i) = Some (Fin b)"
  shows "\<exists>q. derivar_receita_por_funcionario df s =
               Inr (setitem df ''receita_por_funcionario'' q s) \<and>
             q ! i =
               (if b \<noteq> 0 then PyFloat (Fin (a / b))
                else if 0 < a then PyFloat PosInf
                else if a < 0 then PyFloat NegInf
                else PyFloat NaN)"
proof -
  from col_div_numeric_nth [OF assms(3,4,5,6,7,8)]
  obtain q where q: "col_div receita funcionarios = Inr q"
    and qi: "q ! i = PyFloat (fl_div (Fin a) (Fin b))" by blast
  from assms(1) have c1: "''receita_anual'' \<in> set (columns (s ! df))"
    by (rule get_col_in_columns)
  from assms(2) have c2: "''numero_funcionarios'' \<in> set (columns (s ! df))"
    by (rule get_col_in_columns)
  from c1 c2 assms(1,2) q
  have run: "derivar_receita_por_funcionario df s =
      Inr (setitem df ''receita_por_funcionario'' q s)"
    by (simp add: derivar_receita_por_funcionario_def)
  from qi have "q ! i =
               (if b \<noteq> 0 then PyFloat (Fin (a / b))
                else if 0 < a then PyFloat PosInf
                else if a < 0 then PyFloat NegInf
                else PyFloat NaN)" by simp
  with run show ?thesis by blast
qed

theorem receita_por_funcionario_quotient_witness:
  "derivar_receita_por_funcionario 0
     [[(''receita_anual'', [PyFloat (Fin 1000000)]), (''numero_funcionarios'', [PyInt 10])]] =
   Inr [[(''receita_anual'', [PyFloat (Fin 1000000)]), (''numero_funcionarios'', [PyInt 10]),
         (''receita_por_funcionario'', [PyFloat (Fin 100000)])]]"
proof -
  let ?s = "[[(''receita_anual'', [PyFloat (Fin 1000000)]), (''numero_funcionarios'', [PyInt 10])]]"
  have g1: "get_col (?s ! 0) ''receita_anual'' = Inr [PyFloat (Fin 1000000)]"
    by (simp add: get_col_def)
  have g2: "get_col (?s ! 0) ''numero_funcionarios'' = Inr [PyInt 10]"
    by (simp add: get_col_def)
  have n1: "is_numeric [PyFloat (Fin 1000000)]" and n2: "is_numeric [PyInt 10]"
    by (simp_all add: is_numeric_def)
  have i1: "(0::nat) < length [PyFloat (Fin 1000000)]" and i2: "(0::nat) < length [PyInt 10]"
    by simp_all
  have a: "num_of ([PyFloat (Fin 1000000)] ! 0) = Some (Fin 1000000)"
    and b: "num_of ([PyInt 10] ! 0) = Some (Fin 10)" by simp_all
  from receita_por_funcionario_quotient [OF g1 g2 n1 n2 i1 i2 a b]
  obtain q where r: "derivar_receita_por_funcionario 0 ?s =
      Inr (setitem 0 ''receita_por_funcionario'' q ?s)"
    and qi: "q ! 0 = PyFloat (Fin 100000)" by auto
  have e: "derivar_receita_por_funcionario 0 ?s =
     Inr [[(''receita_anual'', [PyFloat (Fin 1000000)]), (''numero_funcionarios'', [PyInt 10]),
         (''receita_por_funcionario'', [PyFloat (Fin 100000)])]]"
    by (simp add: derivar_receita_por_funcionario_def columns_def get_col_def col_div_def
      is_numeric_def setitem_def set_col_def)
  from r e show ?thesis by simp
qed

text \<open>
  The claim as written makes the value absent for an employee count of zero. With a
  revenue of 1,000,000 and no employee the code stores plus infinity.
\<close>

theorem receita_por_funcionario_zero_counterexample:
  "derivar_receita_por_funcionario 0
     [[(''receita_anual'', [PyFloat (Fin 1000000)]), (''numero_funcionarios'', [PyInt 0])]] =
   Inr [[(''receita_anual'', [PyFloat (Fin 1000000)]), (''numero_funcionarios'', [PyInt 0]),
         (''receita_por_funcionario'', [PyFloat PosInf])]]"
  by (simp add: derivar_receita_por_funcionario_def columns_def get_col_def col_div_def
      is_numeric_def setitem_def set_col_def)

section \<open>Properties of the pipeline\<close>

text \<open>
  C4. The claim: the derived columns are computed after the renaming and after the
  revenue coercion. The module calls \<^verbatim>\<open>normalizar_colunas\<close>, which computes them,
  before it applies \<^verbatim>\<open>converter_para_float\<close>. A table as the module's own export
  writes it, with the revenue as a currency string, makes the division raise
  \<^verbatim>\<open>TypeError\<close>, for every date parser, year and country matcher; the same table
  with the revenue already a float goes through.
\<close>

theorem pipeline_derives_before_coercion:
  "pipeline to_datetime ano_atual search_fuzzy
     [(''Receita Anual'', [PyStr ''R$ 1.234,56'']),
      (''N'' @ [CHR 0xBA] @ '' de Funcion'' @ [CHR 0xE1] @ ''rios'', [PyInt 10])] =
   Inl TypeError \<and>
   pipeline to_datetime ano_atual search_fuzzy
     [(''Receita Anual'', [PyFloat (Fin 1234.56)]),
      (''N'' @ [CHR 0xBA] @ '' de Funcion'' @ [CHR 0xE1] @ ''rios'', [PyInt 10])] =
   Inr [(''receita_anual'', [PyFloat (Fin 1234.56)]),
        (''numero_funcionarios'', [PyInt 10]),
        (''receita_por_funcionario'', [PyFloat (Fin 123.456)]),
        (''porte'', [PyStr ''Micro''])]"
proof -
  have a: "pipeline to_datetime ano_atual search_fuzzy
     [(''Receita Anual'', [PyStr ''R$ 1.234,56'']),
      (''N'' @ [CHR 0xBA] @ '' de Funcion'' @ [CHR 0xE1] @ ''rios'', [PyInt 10])] =
   Inl TypeError"
    by (simp add: pipeline_def normalizar_colunas_def renomear_colunas_def
      colunas_para_renomear_def rename_def mapeamento_def columns_def
      derivar_ano_fundacao_def derivar_receita_por_funcionario_def get_col_def col_div_def
      is_numeric_def py_truediv_def masked_truediv_def)
  have b: "pipeline to_datetime ano_atual search_fuzzy
     [(''Receita Anual'', [PyFloat (Fin 1234.56)]),
      (''N'' @ [CHR 0xBA] @ '' de Funcion'' @ [CHR 0xE1] @ ''rios'', [PyInt 10])] =
   Inr [(''receita_anual'', [PyFloat (Fin 1234.56)]),
        (''numero_funcionarios'', [PyInt 10]),
        (''receita_por_funcionario'', [PyFloat (Fin 123.456)]),
        (''porte'', [PyStr ''Micro''])]"
    by (simp add: pipeline_def normalizar_colunas_def renomear_colunas_def
      colunas_para_renomear_def rename_def mapeamento_def columns_def
      derivar_ano_fundacao_def derivar_receita_por_funcionario_def derivar_porte_def
      derivar_idade_empresa_def coagir_receita_def adicionar_codigo_pais_def
      get_col_def col_div_def is_numeric_def pd_cut_def cut_cell_def
      searchsorted_left_def bins_def labels_def setitem_def set_col_def)
  from a b show ?thesis by (rule conjI)
qed

lemma setitem_frame: "\<exists>X. setitem df c col s = s[df := X]"
  by (auto simp: setitem_def)

lemma same_frame: "\<exists>X. s = s[df := X]"
proof
  show "s = s[df := s ! df]" by simp
qed

lemma frame_trans:
  assumes "\<exists>X. s1 = s[df := X]" and "\<exists>X. s2 = s1[df := X]"
  shows "\<exists>X. s2 = s[df := X]"
proof -
  from assms obtain X Y where "s1 = s[df := X]" "s2 = s1[df := Y]" by blast
  then have "s2 = s[df := Y]" by simp
  then show ?thesis by blast
qed

lemma derivar_ano_fundacao_frame: "\<exists>X. derivar_ano_fundacao to_datetime df s = s[df := X]"
proof -
  have two: "\<exists>X. setitem df c2 col2 (setitem df c1 col1 s) = s[df := X]" for c1 c2 col1 col2
    by (rule frame_trans [OF setitem_frame setitem_frame])
  show ?thesis
    unfolding derivar_ano_fundacao_def Let_def
    using same_frame [of s df] setitem_frame [of df _ _ s] two
    by (auto split: sum.splits)
qed

lemma derivar_receita_por_funcionario_frame:
  "derivar_receita_por_funcionario df s = Inr s' \<Longrightarrow> \<exists>X. s' = s[df := X]"
  unfolding derivar_receita_por_funcionario_def
  using same_frame [of s df] setitem_frame [of df _ _ s]
  by (auto split: sum.splits if_splits)

lemma derivar_porte_frame: "derivar_porte df s = Inr s' \<Longrightarrow> \<exists>X. s' = s[df := X]"
  unfolding derivar_porte_def
  using same_frame [of s df] setitem_frame [of df _ _ s]
  by (auto split: sum.splits if_splits)

lemma derivar_idade_empresa_frame:
  "derivar_idade_empresa ano_atual df s = Inr s' \<Longrightarrow> \<exists>X. s' = s[df := X]"
  unfolding derivar_idade_empresa_def
  using same_frame [of s df] setitem_frame [of df _ _ s]
  by (auto split: sum.splits if_splits)

lemma normalizar_colunas_frame:
  assumes "normalizar_colunas to_datetime ano_atual df0 s0 = (res, s')"
    and "renomear_colunas df0 s0 = (df, s1)"
  shows "(\<exists>X. s' = s1[df := X]) \<and> (\<forall>r. res = Inr r \<longrightarrow> r = df)"
proof -
  let ?s2 = "derivar_ano_fundacao to_datetime df s1"
  have f2: "\<exists>X. ?s2 = s1[df := X]" by (rule derivar_ano_fundacao_frame)
  show ?thesis
  proof (cases "derivar_receita_por_funcionario df ?s2")
    case (Inl e)
    with assms have "s' = ?s2" "res = Inl e" by (simp_all add: normalizar_colunas_def)
    with f2 show ?thesis by simp
  next
    case s3: (Inr s3)
    then have f3: "\<exists>X. s3 = s1[df := X]"
      using frame_trans [OF f2 derivar_receita_por_funcionario_frame] by blast
    show ?thesis
    proof (cases "derivar_porte df s3")
      case (Inl e)
      with assms s3 have "s' = s3" "res = Inl e" by (simp_all add: normalizar_colunas_def)
      with f3 show ?thesis by simp
    next
      case s4: (Inr s4)
      then have f4: "\<exists>X. s4 = s1[df := X]"
        using frame_trans [OF f3 derivar_porte_frame] by blast
      show ?thesis
      proof (cases "derivar_idade_empresa ano_atual df s4")
        case (Inl e)
        with assms s3 s4 have "s' = s4" "res = Inl e"
          by (simp_all add: normalizar_colunas_def)
        with f4 show ?thesis by simp
      next
        case s5: (Inr s5)
        then have f5: "\<exists>X. s5 = s1[df := X]"
          using frame_trans [OF f4 derivar_idade_empresa_frame] by blast
        from assms s3 s4 s5 have "s' = s5" "res = Inr df"
          by (simp_all add: normalizar_colunas_def)
        with f5 show ?thesis by simp
      qed
    qed
  qed
qed

text \<open>
  C9, as the code has it. When at least one label of the caller's table is renamed,
  \<^verbatim>\<open>normalizar_colunas\<close> works on a new table object: every table object that
  existed before the call is unchanged after it, whether the call returns or raises,
  and the table returned is the new object. When no label is renamed, the table returned
  is the caller's own object, and no other object is changed.
\<close>

theorem normalizar_colunas_input_unchanged:
  assumes "normalizar_colunas to_datetime ano_atual df0 s = (res, s')"
  shows "(colunas_para_renomear (s ! df0) \<noteq> [] \<longrightarrow>
            take (length s) s' = s \<and> (\<forall>df. res = Inr df \<longrightarrow> df = length s)) \<and>
         (colunas_para_renomear (s ! df0) = [] \<longrightarrow>
            (\<forall>df. res = Inr df \<longrightarrow> df = df0) \<and>
            (\<forall>r. r \<noteq> df0 \<longrightarrow> s' ! r = s ! r))"
proof (cases "colunas_para_renomear (s ! df0) = []")
  case True
  then have "renomear_colunas df0 s = (df0, s)" by (simp add: renomear_colunas_def)
  from normalizar_colunas_frame [OF assms this]
  obtain X where "s' = s[df0 := X]" and "\<forall>r. res = Inr r \<longrightarrow> r = df0" by blast
  with True show ?thesis by simp
next
  case False
  then have "renomear_colunas df0 s =
      (length s, s @ [rename (colunas_para_renomear (s ! df0)) (s ! df0)])"
    by (simp add: renomear_colunas_def Let_def)
  from normalizar_colunas_frame [OF assms this]
  obtain X where "s' = (s @ [rename (colunas_para_renomear (s ! df0)) (s ! df0)])[length s := X]"
    and r: "\<forall>r. res = Inr r \<longrightarrow> r = length s" by blast
  then have "s' = s @ [X]" by simp
  with False r show ?thesis by simp
qed

theorem normalizar_colunas_input_unchanged_witness:
  "normalizar_colunas Inr 2025 0 [[(''Receita Anual'', [PyFloat (Fin 5000000)])]] =
     (Inr 1, [[(''Receita Anual'', [PyFloat (Fin 5000000)])],
              [(''receita_anual'', [PyFloat (Fin 5000000)]), (''porte'', [PyStr ''Micro''])]]) \<and>
   colunas_para_renomear ([[(''Receita Anual'', [PyFloat (Fin 5000000)])]] ! 0) \<noteq> [] \<and>
   take (length [[(''Receita Anual'', [PyFloat (Fin 5000000)])]])
        [[(''Receita Anual'', [PyFloat (Fin 5000000)])],
         [(''receita_anual'', [PyFloat (Fin 5000000)]), (''porte'', [PyStr ''Micro''])]] =
     [[(''Receita Anual'', [PyFloat (Fin 5000000)])]] \<and>
   normalizar_colunas Inr 2025 0 [[(''extra'', [PyInt 1])]] = (Inr 0, [[(''extra'', [PyInt 1])]]) \<and>
   colunas_para_renomear ([[(''extra'', [PyInt 1])]] ! 0) = []"
proof -
  have a: "normalizar_colunas Inr 2025 0 [[(''Receita Anual'', [PyFloat (Fin 5000000)])]] =
     (Inr 1, [[(''Receita Anual'', [PyFloat (Fin 5000000)])],
              [(''receita_anual'', [PyFloat (Fin 5000000)]), (''porte'', [PyStr ''Micro''])]])"
    by (simp add: normalizar_colunas_def renomear_colunas_def colunas_para_renomear_def
      rename_def mapeamento_def columns_def derivar_ano_fundacao_def
      derivar_receita_por_funcionario_def
      derivar_porte_def derivar_idade_empresa_def get_col_def pd_cut_def cut_cell_def
      searchsorted_left_def bins_def labels_def setitem_def set_col_def)
  have b: "normalizar_colunas Inr 2025 0 [[(''extra'', [PyInt 1])]] =
      (Inr 0, [[(''extra'', [PyInt 1])]])"
    by (simp add: normalizar_colunas_def renomear_colunas_def colunas_para_renomear_def
      rename_def mapeamento_def columns_def derivar_ano_fundacao_def
      derivar_receita_por_funcionario_def
      derivar_porte_def derivar_idade_empresa_def)
  have c: "colunas_para_renomear ([[(''Receita Anual'', [PyFloat (Fin 5000000)])]] ! 0) \<noteq> []"
    by (simp add: colunas_para_renomear_def mapeamento_def columns_def)
  have d: "colunas_para_renomear ([[(''extra'', [PyInt 1])]] ! 0) = []"
    by (simp add: colunas_para_renomear_def mapeamento_def columns_def)
  from normalizar_colunas_input_unchanged [OF a] normalizar_colunas_input_unchanged [OF b] a b c d
  show ?thesis by simp
qed

text \<open>
  The claim as written says that the caller's table is never changed. A table that
  already has the canonical label \<^verbatim>\<open>receita_anual\<close> is not copied, and the call
  adds the column \<^verbatim>\<open>porte\<close> to the caller's object.
\<close>

theorem normalizar_colunas_mutates_counterexample:
  "normalizar_colunas Inr 2025 0 [[(''receita_anual'', [PyFloat (Fin 5000000)])]] =
     (Inr 0, [[(''receita_anual'', [PyFloat (Fin 5000000)]), (''porte'', [PyStr ''Micro''])]]) \<and>
   snd (normalizar_colunas Inr 2025 0 [[(''receita_anual'', [PyFloat (Fin 5000000)])]]) ! 0 \<noteq>
     [[(''receita_anual'', [PyFloat (Fin 5000000)])]] ! 0"
  by (simp add: normalizar_colunas_def renomear_colunas_def colunas_para_renomear_def
      mapeamento_def columns_def derivar_ano_fundacao_def derivar_receita_por_funcionario_def
      derivar_porte_def derivar_idade_empresa_def get_col_def pd_cut_def cut_cell_def
      searchsorted_left_def bins_def labels_def setitem_def set_col_def)

section \<open>Properties of the country lookup\<close>

text \<open>
  C8. For every matcher and every cell, \<^verbatim>\<open>obter_codigo_pais\<close> returns and never
  raises: the alpha-3 code of the first match when there is one, and the missing value
  \<^verbatim>\<open>None\<close> when the matcher finds nothing or raises.
\<close>

theorem obter_codigo_pais_never_raises:
  "(\<exists>codigo. obter_codigo_pais search_fuzzy nome_pais = Inr codigo) \<and>
   (\<forall>p ps. search_fuzzy nome_pais = Inr (p # ps) \<longrightarrow>
      obter_codigo_pais search_fuzzy nome_pais = Inr (PyStr (alpha_3 p))) \<and>
   (search_fuzzy nome_pais = Inr [] \<longrightarrow> obter_codigo_pais search_fuzzy nome_pais = Inr PyNone) \<and>
   (\<forall>e. search_fuzzy nome_pais = Inl e \<longrightarrow> obter_codigo_pais search_fuzzy nome_pais = Inr PyNone)"
  by (auto simp: obter_codigo_pais_def obter_codigo_pais_try_def split: sum.splits list.splits)

theorem obter_codigo_pais_never_raises_witness:
  "obter_codigo_pais search_exemplo (PyStr ''Brasil'') = Inr (PyStr ''BRA'') \<and>
   obter_codigo_pais search_exemplo (PyStr ''Terra'') = Inr PyNone \<and>
   obter_codigo_pais search_exemplo (PyStr ''Atlantis'') = Inr PyNone"
proof -
  have a: "search_exemplo (PyStr ''Brasil'') = Inr [\<lparr>alpha_2 = ''BR'', alpha_3 = ''BRA''\<rparr>]"
    and b: "search_exemplo (PyStr ''Terra'') = Inr []"
    and c: "search_exemplo (PyStr ''Atlantis'') = Inl LookupError"
    by (simp_all add: search_exemplo_def)
  from obter_codigo_pais_never_raises [of search_exemplo "PyStr ''Brasil''"]
    obter_codigo_pais_never_raises [of search_exemplo "PyStr ''Terra''"]
    obter_codigo_pais_never_raises [of search_exemplo "PyStr ''Atlantis''"] a b c
  show ?thesis by simp
qed

end
